theory Spec2Isabelle
  imports Complex_Main
begin

section \<open>The posture checker of \<^verbatim>\<open>src/main.py\<close>\<close>

text \<open>
  The program reads one camera frame at a time, asks a pose model for body landmarks and
  keeps a dictionary \<^verbatim>\<open>state\<close> of counters and timestamps. This theory embeds the
  geometry (\<^verbatim>\<open>calculate_angle\<close>, \<^verbatim>\<open>get_angle\<close>, \<^verbatim>\<open>choose_side\<close>) and the per-frame
  state machine (\<^verbatim>\<open>manage_sound_loop\<close>, \<^verbatim>\<open>process_landmarks\<close>, \<^verbatim>\<open>handle_no_detection\<close>,
  the dispatch in \<^verbatim>\<open>main\<close>).

  Conventions of the embedding.
  \<^item> Python floats (coordinates, visibilities, angles, clock readings) are real numbers.
    Rounding is not modelled; every comparison is the one the source makes.
  \<^item> \<^verbatim>\<open>time.time()\<close> is an input \<open>now\<close> of the frame.
  \<^item> \<^verbatim>\<open>playsound\<close>, \<^verbatim>\<open>draw_text\<close>, \<^verbatim>\<open>print\<close>, starting and joining the alarm thread are
    recorded, in program order, in a list of events returned with the new state.
  \<^item> A value that is \<^verbatim>\<open>None\<close> or a float is a \<open>real option\<close>; where the source tests such
    a value for truth (\<^verbatim>\<open>if state['stand_up_time'] and ...\<close>) the model uses \<open>truthy\<close>,
    which is false for \<^verbatim>\<open>None\<close> and for \<^verbatim>\<open>0.0\<close>, as in Python.
  \<^item> Indexing a landmark list out of range raises \<^verbatim>\<open>IndexError\<close>; it is a value of the
    result type.
  \<^item> The alarm thread itself (\<^verbatim>\<open>play_ping_loop\<close>) runs beside the frame loop and is not
    modelled beyond its start and its join; the flag \<open>ping_active\<close> it polls is.
  \<^item> Camera and pose-model set-up, the sitting-time label that \<^verbatim>\<open>main\<close> draws after each
    frame and the shutdown code after the loop are left out.
\<close>

subsection \<open>Constants (lines 35-40) and the landmark indices of MediaPipe\<close>

definition POSTURE_THRESHOLD :: real where "POSTURE_THRESHOLD = 130"
definition STAND_THRESHOLD :: real where "STAND_THRESHOLD = 170"
definition MAX_COUNTER :: int where "MAX_COUNTER = 3"
definition DETECTION_COOLDOWN :: real where "DETECTION_COOLDOWN = 5"
definition VIS_THRESH :: real where "VIS_THRESH = 1 / 2"
definition SIT_LIMIT_SEC :: real where "SIT_LIMIT_SEC = 3600"

text \<open>
  \<^verbatim>\<open>mp_pose.PoseLandmark.<NAME>.value\<close>: the enumeration belongs to the MediaPipe library,
  not to this repository; these are its values.
\<close>

definition NOSE :: nat where "NOSE = 0"
definition LEFT_SHOULDER :: nat where "LEFT_SHOULDER = 11"
definition RIGHT_SHOULDER :: nat where "RIGHT_SHOULDER = 12"
definition LEFT_HIP :: nat where "LEFT_HIP = 23"
definition RIGHT_HIP :: nat where "RIGHT_HIP = 24"
definition LEFT_KNEE :: nat where "LEFT_KNEE = 25"
definition RIGHT_KNEE :: nat where "RIGHT_KNEE = 26"

subsection \<open>Data\<close>

text \<open>A landmark: the attributes \<^verbatim>\<open>x\<close>, \<^verbatim>\<open>y\<close>, \<^verbatim>\<open>z\<close>, \<^verbatim>\<open>visibility\<close> the source reads.\<close>

record landmark =
  lm_x :: real
  lm_y :: real
  lm_z :: real
  visibility :: real

datatype py_error = IndexError

text \<open>The strings \<^verbatim>\<open>'left'\<close> and \<^verbatim>\<open>'right'\<close> returned by \<^verbatim>\<open>choose_side\<close>.\<close>

datatype side = Left | Right

text \<open>
  The dictionary \<^verbatim>\<open>state\<close> of \<^verbatim>\<open>main\<close> (lines 255-265). \<open>ping_thread\<close> is true when the
  entry holds a thread object and false when it holds \<^verbatim>\<open>None\<close>.
\<close>

record state =
  bad_posture_count :: int
  consecutive_bad_posture :: int
  last_detection_time :: real
  sitting_start_time :: "real option"
  stretch_prompted :: bool
  prev_is_standing :: bool
  stand_up_time :: "real option"
  ping_thread :: bool
  ping_active :: bool

text \<open>
  The sound files handed to \<^verbatim>\<open>playsound\<close> on the frame thread: \<^verbatim>\<open>sound/reset.wav\<close> (the
  stand-up cue) and \<^verbatim>\<open>sound/siren_short.wav\<close> (the bad-posture cue).
\<close>

datatype clip = Reset_wav | Siren_short_wav

text \<open>
  The strings drawn by \<^verbatim>\<open>draw_text\<close>; a count or an angle shown in the string is an
  argument (\<^verbatim>\<open>N/A\<close> is \<open>None\<close>).
\<close>

datatype label =
    Posture_Check_Paused
  | Bad_Posture int
  | Standing
  | Good_Posture int
  | Stretch_Time
  | Please_Stretch
  | No_detection
  | Deg1 side "int option"
  | Deg2 side "int option"

datatype notice = Stretch_notice | Exceeded_notice

datatype event =
    Playsound clip
  | Draw_text label
  | Print notice
  | Thread_start
  | Thread_join
  | Draw_landmarks

subsection \<open>Geometry (lines 53-84)\<close>

text \<open>
  \<^verbatim>\<open>math.atan2(y, x)\<close> on real numbers: the polar angle of the point \<open>(x, y)\<close>, in
  \<open>(-\<pi>, \<pi>]\<close>, and \<open>0\<close> at the origin. \<^verbatim>\<open>math.degrees\<close> converts radians to degrees.
\<close>

definition atan2 :: "real \<Rightarrow> real \<Rightarrow> real" where
  "atan2 b a =
     (if 0 < a then arctan (b / a)
      else if a < 0 then (if 0 \<le> b then arctan (b / a) + pi else arctan (b / a) - pi)
      else if 0 < b then pi / 2
      else if b < 0 then - (pi / 2)
      else 0)"

definition degrees :: "real \<Rightarrow> real" where
  "degrees r = r * 180 / pi"

text \<open>Lines 53-59. A point is the pair of its two coordinates.\<close>

definition calculate_angle :: "real \<times> real \<Rightarrow> real \<times> real \<Rightarrow> real \<times> real \<Rightarrow> real" where
  "calculate_angle a b c =
     (let ang = degrees (atan2 (snd c - snd b) (fst c - fst b)
                         - atan2 (snd a - snd b) (fst a - fst b))
      in \<bar>if ang < 180 then ang else 360 - ang\<bar>)"

text \<open>Lines 61-69. The \<^verbatim>\<open>except IndexError\<close> branch is the outer \<open>else\<close>.\<close>

definition get_angle :: "nat \<Rightarrow> nat \<Rightarrow> nat \<Rightarrow> landmark list \<Rightarrow> real \<Rightarrow> real" where
  "get_angle i j k lms v =
     (if i < length lms \<and> j < length lms \<and> k < length lms then
        (let la = lms ! i; lb = lms ! j; lc = lms ! k in
         if min (min (visibility la) (visibility lb)) (visibility lc) < v then 0
         else calculate_angle (lm_x la, lm_y la) (lm_x lb, lm_y lb) (lm_x lc, lm_y lc))
      else 0)"

text \<open>
  Lines 71-84. The four shoulder and hip reads come first and raise \<^verbatim>\<open>IndexError\<close> on a
  short list; the nose is read only when the first four tests fall through.
\<close>

definition choose_side :: "landmark list \<Rightarrow> real \<Rightarrow> py_error + side" where
  "choose_side lms v =
     (if LEFT_SHOULDER < length lms \<and> RIGHT_SHOULDER < length lms
         \<and> LEFT_HIP < length lms \<and> RIGHT_HIP < length lms then
        (let Ls = lms ! LEFT_SHOULDER; Rs = lms ! RIGHT_SHOULDER;
             Lh = lms ! LEFT_HIP; Rh = lms ! RIGHT_HIP;
             vis_left = visibility Ls + visibility Lh;
             vis_right = visibility Rs + visibility Rh
         in if vis_left \<ge> v * 2 \<and> vis_left > vis_right then Inr Left
            else if vis_right \<ge> v * 2 \<and> vis_right > vis_left then Inr Right
            else if lm_z Ls < lm_z Rs then Inr Left
            else if lm_z Rs < lm_z Ls then Inr Right
            else if NOSE < length lms then
              (let nose = lms ! NOSE;
                   dL = (lm_x nose - lm_x Ls)\<^sup>2 + (lm_y nose - lm_y Ls)\<^sup>2;
                   dR = (lm_x nose - lm_x Rs)\<^sup>2 + (lm_y nose - lm_y Rs)\<^sup>2
               in Inr (if dL < dR then Left else Right))
            else Inl IndexError)
      else Inl IndexError)"

subsection \<open>The alarm loop (lines 135-146)\<close>

text \<open>
  \<^verbatim>\<open>manage_sound_loop\<close>. Starting the daemon thread that replays \<^verbatim>\<open>siren_long.wav\<close> is the
  event \<open>Thread_start\<close>; clearing the flag and joining the thread is \<open>Thread_join\<close>.
\<close>

definition manage_sound_loop :: "state \<Rightarrow> bool \<Rightarrow> state \<times> event list" where
  "manage_sound_loop s should_be_active =
     (if should_be_active \<and> \<not> ping_active s then
        (s\<lparr>ping_active := True, ping_thread := True\<rparr>, [Thread_start])
      else if \<not> should_be_active \<and> ping_active s then
        (if ping_thread s then (s\<lparr>ping_active := False, ping_thread := False\<rparr>, [Thread_join])
         else (s\<lparr>ping_active := False\<rparr>, []))
      else (s, []))"

subsection \<open>One frame with landmarks (lines 148-230)\<close>

text \<open>Python's truth value of an entry that is \<^verbatim>\<open>None\<close> or a float.\<close>

fun truthy :: "real option \<Rightarrow> bool" where
  "truthy None = False"
| "truthy (Some t) = (t \<noteq> 0)"

text \<open>Lines 153-169: the side, the two angles, and the fold of the second angle.\<close>

definition shoulder_of :: "side \<Rightarrow> nat" where
  "shoulder_of sd = (if sd = Right then RIGHT_SHOULDER else LEFT_SHOULDER)"

definition hip_of :: "side \<Rightarrow> nat" where
  "hip_of sd = (if sd = Right then RIGHT_HIP else LEFT_HIP)"

definition knee_of :: "side \<Rightarrow> nat" where
  "knee_of sd = (if sd = Right then RIGHT_KNEE else LEFT_KNEE)"

definition posture_angles :: "landmark list \<Rightarrow> py_error + (side \<times> real \<times> real)" where
  "posture_angles lms =
     (case choose_side lms VIS_THRESH of
        Inl e \<Rightarrow> Inl e
      | Inr sd \<Rightarrow>
          (let sit = get_angle NOSE (shoulder_of sd) (hip_of sd) lms VIS_THRESH;
               std = get_angle (knee_of sd) (hip_of sd) (shoulder_of sd) lms VIS_THRESH
           in Inr (sd, sit, if std > 180 then 360 - std else std)))"

text \<open>Lines 172-173.\<close>

definition is_stand :: "real \<Rightarrow> bool" where
  "is_stand std = (std \<ge> STAND_THRESHOLD)"

definition is_sit :: "real \<Rightarrow> real \<Rightarrow> bool" where
  "is_sit sit std = (sit \<noteq> 0 \<and> \<not> is_stand std)"

text \<open>Lines 176-179: the sitting timer.\<close>

definition sitting_timer :: "real \<Rightarrow> real \<Rightarrow> real \<Rightarrow> state \<Rightarrow> state" where
  "sitting_timer now sit std s =
     (let s1 = (if is_sit sit std \<and> sitting_start_time s = None
                then s\<lparr>sitting_start_time := Some now, stretch_prompted := False\<rparr> else s)
      in if is_stand std then s1\<lparr>sitting_start_time := None, stretch_prompted := False\<rparr>
         else s1)"

text \<open>Lines 182-185: the transition to standing.\<close>

definition stand_up_edge :: "real \<Rightarrow> real \<Rightarrow> state \<Rightarrow> state \<times> event list" where
  "stand_up_edge now std s =
     (if is_stand std \<and> \<not> prev_is_standing s then
        (s\<lparr>stand_up_time := Some now, bad_posture_count := 0\<rparr>, [Playsound Reset_wav])
      else (s, []))"

text \<open>Line 188: the test that pauses the posture check after a stand-up.\<close>

definition check_paused :: "real \<Rightarrow> state \<Rightarrow> bool" where
  "check_paused now s =
     (case stand_up_time s of
        None \<Rightarrow> False
      | Some t \<Rightarrow> truthy (Some t) \<and> now - t < 10)"

text \<open>Lines 188-204: the posture check with its debounce.\<close>

definition posture_check :: "real \<Rightarrow> real \<Rightarrow> real \<Rightarrow> state \<Rightarrow> state \<times> event list" where
  "posture_check now sit std s =
     (if check_paused now s then (s, [Draw_text Posture_Check_Paused])
      else if sit < POSTURE_THRESHOLD \<and> sit \<noteq> 0 then
        (let s1 = s\<lparr>consecutive_bad_posture := consecutive_bad_posture s + 1\<rparr> in
         if consecutive_bad_posture s1 \<ge> 3
            \<and> now - last_detection_time s1 \<ge> DETECTION_COOLDOWN then
           (let s2 = s1\<lparr>bad_posture_count := bad_posture_count s1 + 1,
                        last_detection_time := now,
                        consecutive_bad_posture := 0\<rparr>
            in (s2, [Playsound Siren_short_wav, Draw_text (Bad_Posture (bad_posture_count s2))]))
         else (s1, [Draw_text (Bad_Posture (bad_posture_count s1))]))
      else
        (s\<lparr>consecutive_bad_posture := 0\<rparr>,
         [Draw_text (if is_stand std then Standing else Good_Posture (bad_posture_count s))]))"

text \<open>Line 207: \<^verbatim>\<open>is_stretch_time\<close>, read for its truth value.\<close>

definition is_stretch_time :: "real \<Rightarrow> real \<Rightarrow> real \<Rightarrow> state \<Rightarrow> bool" where
  "is_stretch_time now sit std s =
     (is_sit sit std \<and>
      (case sitting_start_time s of
         None \<Rightarrow> False
       | Some t \<Rightarrow> truthy (Some t) \<and> now - t \<ge> SIT_LIMIT_SEC))"

text \<open>Lines 208-212: the stretch prompt.\<close>

definition stretch_check :: "real \<Rightarrow> real \<Rightarrow> real \<Rightarrow> state \<Rightarrow> state \<times> event list" where
  "stretch_check now sit std s =
     (if is_stretch_time now sit std s then
        (if \<not> stretch_prompted s
         then (s\<lparr>stretch_prompted := True\<rparr>, [Print Stretch_notice, Draw_text Stretch_Time])
         else (s, [Draw_text Stretch_Time]))
      else (s, []))"

text \<open>Lines 214-218: the count has reached \<^verbatim>\<open>MAX_COUNTER\<close>.\<close>

definition is_bad_posture_exceeded :: "state \<Rightarrow> bool" where
  "is_bad_posture_exceeded s = (bad_posture_count s \<ge> MAX_COUNTER)"

definition exceeded_check :: "state \<Rightarrow> event list" where
  "exceeded_check s =
     (if is_bad_posture_exceeded s then
        (if \<not> ping_active s then [Print Exceeded_notice] else []) @ [Draw_text Please_Stretch]
      else [])"

text \<open>Lines 225-227: the two angle labels (\<^verbatim>\<open>int\<close> of a non-negative float) and the skeleton.\<close>

definition angle_labels :: "side \<Rightarrow> real \<Rightarrow> real \<Rightarrow> event list" where
  "angle_labels sd sit std =
     [Draw_text (Deg1 sd (if sit = 0 then None else Some \<lfloor>sit\<rfloor>)),
      Draw_text (Deg2 sd (if std = 0 then None else Some \<lfloor>std\<rfloor>)),
      Draw_landmarks]"

text \<open>
  Lines 171-230, in the order of the source: sitting timer, stand-up edge, posture check,
  stretch prompt, exceeded count, alarm loop, labels, and the final write of
  \<^verbatim>\<open>prev_is_standing\<close>.
\<close>

definition update_state :: "real \<Rightarrow> side \<Rightarrow> real \<Rightarrow> real \<Rightarrow> state \<Rightarrow> state \<times> event list" where
  "update_state now sd sit std s =
     (let s1 = sitting_timer now sit std s;
          (s2, e2) = stand_up_edge now std s1;
          (s3, e3) = posture_check now sit std s2;
          stretch = is_stretch_time now sit std s3;
          (s4, e4) = stretch_check now sit std s3;
          exceeded = is_bad_posture_exceeded s4;
          e5 = exceeded_check s4;
          should_ping = (stretch \<or> exceeded);
          (s6, e6) = manage_sound_loop s4 should_ping
      in (s6\<lparr>prev_is_standing := is_stand std\<rparr>,
          e2 @ e3 @ e4 @ e5 @ e6 @ angle_labels sd sit std))"

definition process_landmarks ::
    "real \<Rightarrow> landmark list \<Rightarrow> state \<Rightarrow> py_error + (state \<times> event list)" where
  "process_landmarks now lms s =
     (case posture_angles lms of
        Inl e \<Rightarrow> Inl e
      | Inr (sd, sit, std) \<Rightarrow> Inr (update_state now sd sit std s))"

subsection \<open>One frame without landmarks (lines 232-242) and the dispatch of \<^verbatim>\<open>main\<close>\<close>

definition handle_no_detection :: "state \<Rightarrow> state \<times> event list" where
  "handle_no_detection s =
     (let s1 = s\<lparr>sitting_start_time := None, stretch_prompted := False,
                 consecutive_bad_posture := 0, prev_is_standing := False\<rparr>;
          (s2, e2) = manage_sound_loop s1 False
      in (s2, Draw_text No_detection # e2))"

text \<open>Lines 255-265: the state \<^verbatim>\<open>main\<close> starts from.\<close>

definition init :: state where
  "init = \<lparr>bad_posture_count = 0, consecutive_bad_posture = 0, last_detection_time = 0,
           sitting_start_time = None, stretch_prompted = False, prev_is_standing = False,
           stand_up_time = None, ping_thread = False, ping_active = False\<rparr>"

text \<open>
  Lines 293-296: a frame carries landmarks (\<open>Some lms\<close>) or none. \<open>run\<close> is the loop of
  \<^verbatim>\<open>main\<close> over a finite list of frames, each with the clock reading taken while it is
  processed; an exception ends the run.
\<close>

definition process_frame ::
    "real \<Rightarrow> landmark list option \<Rightarrow> state \<Rightarrow> py_error + (state \<times> event list)" where
  "process_frame now frame s =
     (case frame of
        Some lms \<Rightarrow> process_landmarks now lms s
      | None \<Rightarrow> Inr (handle_no_detection s))"

fun run :: "(real \<times> landmark list option) list \<Rightarrow> state \<Rightarrow> py_error + (state \<times> event list)" where
  "run [] s = Inr (s, [])"
| "run ((now, frame) # fs) s =
     (case process_frame now frame s of
        Inl e \<Rightarrow> Inl e
      | Inr (s1, e1) \<Rightarrow>
          (case run fs s1 of
             Inl e \<Rightarrow> Inl e
           | Inr (s2, e2) \<Rightarrow> Inr (s2, e1 @ e2)))"

subsection \<open>Auxiliary definitions for the statements\<close>

text \<open>
  The state as it reaches the posture check of line 188: after the sitting timer and the
  stand-up edge of the same frame.
\<close>

definition before_check :: "real \<Rightarrow> real \<Rightarrow> real \<Rightarrow> state \<Rightarrow> state" where
  "before_check now sit std s = fst (stand_up_edge now std (sitting_timer now sit std s))"

text \<open>
  The precedence of the side selector as the specification words it: a side wins on
  visibility when its combined visibility exceeds \<open>2v\<close> and strictly exceeds the other
  side's; otherwise the nearer shoulder; otherwise the shoulder closer to the nose.
  \<open>spec_side_ok lms v sd\<close> holds when \<open>sd\<close> is an answer this wording allows.
\<close>

definition spec_side_ok :: "landmark list \<Rightarrow> real \<Rightarrow> side \<Rightarrow> bool" where
  "spec_side_ok lms v sd =
     (let Ls = lms ! LEFT_SHOULDER; Rs = lms ! RIGHT_SHOULDER;
          Lh = lms ! LEFT_HIP; Rh = lms ! RIGHT_HIP; nose = lms ! NOSE;
          vis_left = visibility Ls + visibility Lh;
          vis_right = visibility Rs + visibility Rh;
          dL = (lm_x nose - lm_x Ls)\<^sup>2 + (lm_y nose - lm_y Ls)\<^sup>2;
          dR = (lm_x nose - lm_x Rs)\<^sup>2 + (lm_y nose - lm_y Rs)\<^sup>2
      in if vis_left > 2 * v \<and> vis_left > vis_right then sd = Left
         else if vis_right > 2 * v \<and> vis_right > vis_left then sd = Right
         else if lm_z Ls < lm_z Rs then sd = Left
         else if lm_z Rs < lm_z Ls then sd = Right
         else if dL < dR then sd = Left
         else if dR < dL then sd = Right
         else True)"

subsection \<open>Sample frames and states\<close>

text \<open>
  Poses in image coordinates (\<open>y\<close> grows downwards), 33 landmarks as MediaPipe delivers
  them. \<open>pose\<close> puts the same shoulder, hip and knee on both sides, fully visible; every
  other landmark is hidden.
\<close>

definition visible_at :: "real \<Rightarrow> real \<Rightarrow> landmark" where
  "visible_at a b = \<lparr>lm_x = a, lm_y = b, lm_z = 0, visibility = 1\<rparr>"

definition hidden :: landmark where
  "hidden = \<lparr>lm_x = 0, lm_y = 0, lm_z = 0, visibility = 0\<rparr>"

definition pose :: "landmark \<Rightarrow> landmark \<Rightarrow> landmark \<Rightarrow> landmark \<Rightarrow> landmark list" where
  "pose nose shoulder hip knee =
     (replicate 33 hidden)[NOSE := nose, LEFT_SHOULDER := shoulder, RIGHT_SHOULDER := shoulder,
        LEFT_HIP := hip, RIGHT_HIP := hip, LEFT_KNEE := knee, RIGHT_KNEE := knee]"

text \<open>Seated, head pushed forward: nose-shoulder-hip 90 degrees, knee-hip-shoulder 90.\<close>

definition slouch_pose :: "landmark list" where
  "slouch_pose = pose (visible_at 1 0) (visible_at 0 0) (visible_at 0 1) (visible_at 1 1)"

text \<open>Seated upright: nose-shoulder-hip 180 degrees, knee-hip-shoulder 90.\<close>

definition upright_pose :: "landmark list" where
  "upright_pose = pose (visible_at 0 (-1)) (visible_at 0 0) (visible_at 0 1) (visible_at 1 1)"

text \<open>Standing upright: both angles 180 degrees.\<close>

definition standing_pose :: "landmark list" where
  "standing_pose = pose (visible_at 0 (-1)) (visible_at 0 0) (visible_at 0 1) (visible_at 0 2)"

text \<open>Standing with the head pushed forward: nose-shoulder-hip 90, knee-hip-shoulder 180.\<close>

definition standing_slouch_pose :: "landmark list" where
  "standing_slouch_pose = pose (visible_at 1 0) (visible_at 0 0) (visible_at 0 1) (visible_at 0 2)"

text \<open>A snapshot none of whose landmarks is visible enough: both angles are unknown.\<close>

definition hidden_pose :: "landmark list" where
  "hidden_pose = replicate 33 hidden"

text \<open>
  Left shoulder and hip at visibility 0.5 each (the sum is exactly \<open>2v\<close>), right shoulder
  and hip at 0.4 each, the right shoulder nearer to the camera.
\<close>

definition boundary_pose :: "landmark list" where
  "boundary_pose =
     (replicate 33 hidden)
       [LEFT_SHOULDER := \<lparr>lm_x = 0, lm_y = 0, lm_z = 0, visibility = 1 / 2\<rparr>,
        LEFT_HIP := \<lparr>lm_x = 0, lm_y = 1, lm_z = 0, visibility = 1 / 2\<rparr>,
        RIGHT_SHOULDER := \<lparr>lm_x = 0, lm_y = 0, lm_z = - 1, visibility = 2 / 5\<rparr>,
        RIGHT_HIP := \<lparr>lm_x = 0, lm_y = 1, lm_z = - 1, visibility = 2 / 5\<rparr>]"

section \<open>Evaluating the sample frames\<close>

lemmas index_defs = NOSE_def LEFT_SHOULDER_def RIGHT_SHOULDER_def LEFT_HIP_def RIGHT_HIP_def
  LEFT_KNEE_def RIGHT_KNEE_def

lemmas geometry_defs = posture_angles_def choose_side_def get_angle_def calculate_angle_def
  atan2_def degrees_def shoulder_of_def hip_of_def knee_of_def VIS_THRESH_def

lemmas threshold_defs = POSTURE_THRESHOLD_def STAND_THRESHOLD_def MAX_COUNTER_def
  DETECTION_COOLDOWN_def SIT_LIMIT_SEC_def

lemmas frame_defs = update_state_def sitting_timer_def stand_up_edge_def posture_check_def
  check_paused_def is_stretch_time_def stretch_check_def is_bad_posture_exceeded_def
  exceeded_check_def manage_sound_loop_def angle_labels_def is_stand_def is_sit_def

lemma slouch_pose_angles: "posture_angles slouch_pose = Inr (Right, 90, 90)"
  by (simp add: slouch_pose_def pose_def visible_at_def hidden_def geometry_defs index_defs
      Let_def)

lemma upright_pose_angles: "posture_angles upright_pose = Inr (Right, 180, 90)"
  by (simp add: upright_pose_def pose_def visible_at_def hidden_def geometry_defs index_defs
      Let_def)

lemma standing_pose_angles: "posture_angles standing_pose = Inr (Right, 180, 180)"
  by (simp add: standing_pose_def pose_def visible_at_def hidden_def geometry_defs index_defs
      Let_def)

lemma standing_slouch_pose_angles: "posture_angles standing_slouch_pose = Inr (Right, 90, 180)"
  by (simp add: standing_slouch_pose_def pose_def visible_at_def hidden_def geometry_defs
      index_defs Let_def)

lemma hidden_pose_angles: "posture_angles hidden_pose = Inr (Right, 0, 0)"
  by (simp add: hidden_pose_def hidden_def geometry_defs index_defs Let_def)

lemma boundary_pose_length: "length boundary_pose = 33"
  by (simp add: boundary_pose_def)

section \<open>The frame, block by block\<close>

lemma process_landmarks_update:
  "posture_angles lms = Inr (sd, sit, std) \<Longrightarrow>
   process_landmarks now lms s = Inr (update_state now sd sit std s)"
  by (simp add: process_landmarks_def)

lemma process_landmarks_result:
  assumes "posture_angles lms = Inr (sd, sit, std)"
    and "process_landmarks now lms s = Inr (s', evs)"
  shows "s' = fst (update_state now sd sit std s)" and "evs = snd (update_state now sd sit std s)"
  using assms by (simp_all add: process_landmarks_def)

lemma manage_sound_loop_fields [simp]:
  "ping_active (fst (manage_sound_loop s b)) = b"
  "bad_posture_count (fst (manage_sound_loop s b)) = bad_posture_count s"
  "consecutive_bad_posture (fst (manage_sound_loop s b)) = consecutive_bad_posture s"
  "last_detection_time (fst (manage_sound_loop s b)) = last_detection_time s"
  "sitting_start_time (fst (manage_sound_loop s b)) = sitting_start_time s"
  "stretch_prompted (fst (manage_sound_loop s b)) = stretch_prompted s"
  "prev_is_standing (fst (manage_sound_loop s b)) = prev_is_standing s"
  "stand_up_time (fst (manage_sound_loop s b)) = stand_up_time s"
  by (simp_all add: manage_sound_loop_def)

lemma manage_sound_loop_events [simp]:
  "Playsound c \<notin> set (snd (manage_sound_loop s b))"
  "Draw_text l \<notin> set (snd (manage_sound_loop s b))"
  by (simp_all add: manage_sound_loop_def)

text \<open>
  What the frame has done to the state when it reaches the posture check: only a stand-up
  edge touches \<open>stand_up_time\<close> and \<open>bad_posture_count\<close>.
\<close>

lemma before_check_fields [simp]:
  "stand_up_time (before_check now sit std s) =
     (if is_stand std \<and> \<not> prev_is_standing s then Some now else stand_up_time s)"
  "bad_posture_count (before_check now sit std s) =
     (if is_stand std \<and> \<not> prev_is_standing s then 0 else bad_posture_count s)"
  "consecutive_bad_posture (before_check now sit std s) = consecutive_bad_posture s"
  "last_detection_time (before_check now sit std s) = last_detection_time s"
  "prev_is_standing (before_check now sit std s) = prev_is_standing s"
  "ping_active (before_check now sit std s) = ping_active s"
  by (simp_all add: before_check_def stand_up_edge_def sitting_timer_def Let_def)

lemma before_check_sitting [simp]:
  "sitting_start_time (before_check now sit std s) =
     (if is_stand std then None
      else if is_sit sit std \<and> sitting_start_time s = None then Some now
      else sitting_start_time s)"
  by (simp add: before_check_def stand_up_edge_def sitting_timer_def Let_def)

lemma stand_up_edge_events:
  "snd (stand_up_edge now std (sitting_timer now sit std s)) =
     (if is_stand std \<and> \<not> prev_is_standing s then [Playsound Reset_wav] else [])"
  by (simp add: stand_up_edge_def sitting_timer_def Let_def)

lemma posture_check_fields [simp]:
  "sitting_start_time (fst (posture_check now sit std s)) = sitting_start_time s"
  "stand_up_time (fst (posture_check now sit std s)) = stand_up_time s"
  "prev_is_standing (fst (posture_check now sit std s)) = prev_is_standing s"
  "ping_active (fst (posture_check now sit std s)) = ping_active s"
  "stretch_prompted (fst (posture_check now sit std s)) = stretch_prompted s"
  by (simp_all add: posture_check_def Let_def)

lemma posture_check_no_reset [simp]:
  "Playsound Reset_wav \<notin> set (snd (posture_check now sit std s))"
  by (simp add: posture_check_def Let_def)

lemma stretch_check_fields [simp]:
  "bad_posture_count (fst (stretch_check now sit std s)) = bad_posture_count s"
  "consecutive_bad_posture (fst (stretch_check now sit std s)) = consecutive_bad_posture s"
  "last_detection_time (fst (stretch_check now sit std s)) = last_detection_time s"
  "sitting_start_time (fst (stretch_check now sit std s)) = sitting_start_time s"
  "prev_is_standing (fst (stretch_check now sit std s)) = prev_is_standing s"
  "stand_up_time (fst (stretch_check now sit std s)) = stand_up_time s"
  "ping_active (fst (stretch_check now sit std s)) = ping_active s"
  by (simp_all add: stretch_check_def)

lemma stretch_check_exceeded [simp]:
  "is_bad_posture_exceeded (fst (stretch_check now sit std s)) = is_bad_posture_exceeded s"
  by (simp add: is_bad_posture_exceeded_def)

lemma stretch_check_events [simp]:
  "Playsound c \<notin> set (snd (stretch_check now sit std s))"
  "Draw_text Posture_Check_Paused \<notin> set (snd (stretch_check now sit std s))"
  by (simp_all add: stretch_check_def)

lemma exceeded_check_events [simp]:
  "Playsound c \<notin> set (exceeded_check s)"
  "Draw_text Posture_Check_Paused \<notin> set (exceeded_check s)"
  by (simp_all add: exceeded_check_def)

lemma angle_labels_events [simp]:
  "Playsound c \<notin> set (angle_labels sd sit std)"
  "Draw_text Posture_Check_Paused \<notin> set (angle_labels sd sit std)"
  by (simp_all add: angle_labels_def)

text \<open>The frame split at the posture check: the state and the events it returns.\<close>

lemma update_state_state:
  "fst (update_state now sd sit std s) =
     (let s3 = fst (posture_check now sit std (before_check now sit std s))
      in (fst (manage_sound_loop (fst (stretch_check now sit std s3))
                (is_stretch_time now sit std s3 \<or> is_bad_posture_exceeded s3)))
         \<lparr>prev_is_standing := is_stand std\<rparr>)"
  by (simp add: update_state_def before_check_def Let_def case_prod_beta)

lemma update_state_events:
  "snd (update_state now sd sit std s) =
     (let s3 = fst (posture_check now sit std (before_check now sit std s));
          s4 = fst (stretch_check now sit std s3)
      in snd (stand_up_edge now std (sitting_timer now sit std s))
         @ snd (posture_check now sit std (before_check now sit std s))
         @ snd (stretch_check now sit std s3)
         @ exceeded_check s4
         @ snd (manage_sound_loop s4
                 (is_stretch_time now sit std s3 \<or> is_bad_posture_exceeded s3))
         @ angle_labels sd sit std)"
  by (simp add: update_state_def before_check_def Let_def case_prod_beta)

lemma update_state_fields:
  "bad_posture_count (fst (update_state now sd sit std s)) =
     bad_posture_count (fst (posture_check now sit std (before_check now sit std s)))"
  "consecutive_bad_posture (fst (update_state now sd sit std s)) =
     consecutive_bad_posture (fst (posture_check now sit std (before_check now sit std s)))"
  "last_detection_time (fst (update_state now sd sit std s)) =
     last_detection_time (fst (posture_check now sit std (before_check now sit std s)))"
  "stand_up_time (fst (update_state now sd sit std s)) =
     stand_up_time (before_check now sit std s)"
  "sitting_start_time (fst (update_state now sd sit std s)) =
     sitting_start_time (before_check now sit std s)"
  "prev_is_standing (fst (update_state now sd sit std s)) = is_stand std"
  "ping_active (fst (update_state now sd sit std s)) =
     (is_stretch_time now sit std (fst (posture_check now sit std (before_check now sit std s)))
      \<or> is_bad_posture_exceeded
           (fst (posture_check now sit std (before_check now sit std s))))"
  by (simp_all add: update_state_state Let_def)

lemma update_state_cues:
  "count_list (snd (update_state now sd sit std s)) (Playsound Reset_wav) =
     (if is_stand std \<and> \<not> prev_is_standing s then 1 else 0)"
  "count_list (snd (update_state now sd sit std s)) (Playsound Siren_short_wav) =
     count_list (snd (posture_check now sit std (before_check now sit std s)))
       (Playsound Siren_short_wav)"
  "Playsound Siren_short_wav \<in> set (snd (update_state now sd sit std s)) \<longleftrightarrow>
     Playsound Siren_short_wav
       \<in> set (snd (posture_check now sit std (before_check now sit std s)))"
  "Draw_text Posture_Check_Paused \<in> set (snd (update_state now sd sit std s)) \<longleftrightarrow>
     Draw_text Posture_Check_Paused
       \<in> set (snd (posture_check now sit std (before_check now sit std s)))"
  by (simp_all add: update_state_events stand_up_edge_events Let_def count_list_0_iff)

text \<open>The frame without landmarks, field by field.\<close>

lemma handle_no_detection_fields [simp]:
  "sitting_start_time (fst (handle_no_detection s)) = None"
  "stretch_prompted (fst (handle_no_detection s)) = False"
  "consecutive_bad_posture (fst (handle_no_detection s)) = 0"
  "prev_is_standing (fst (handle_no_detection s)) = False"
  "ping_active (fst (handle_no_detection s)) = False"
  "bad_posture_count (fst (handle_no_detection s)) = bad_posture_count s"
  "stand_up_time (fst (handle_no_detection s)) = stand_up_time s"
  "last_detection_time (fst (handle_no_detection s)) = last_detection_time s"
  by (simp_all add: handle_no_detection_def Let_def case_prod_beta)

section \<open>Geometry\<close>

text \<open>
  Claim C3 (the angle calculator returns a value in [0, 180]). Take the vertex \<open>b\<close> at
  the centre of the image, \<open>a\<close> to its left at the same height and \<open>c\<close> straight above
  it (the knee, hip and shoulder of a person seated facing left, thigh horizontal). The
  two rays are at a right angle; the difference of the polar angles is -270 degrees, the
  fold leaves it alone because it is below 180, and the absolute value returns 270.
\<close>

theorem calculate_angle_right_angle_270:
  "calculate_angle (0, 1 / 2) (1 / 2, 1 / 2) (1 / 2, 0) = 270"
  by (simp add: calculate_angle_def atan2_def degrees_def Let_def)

text \<open>
  What does hold: the polar angles lie in \<open>(-\<pi>, \<pi>]\<close>, so the result lies in \<open>[0, 360)\<close>;
  \<^verbatim>\<open>process_landmarks\<close> folds the stand angle once more (lines 168-169), which brings that
  angle, and only that one, into \<open>[0, 180]\<close>.
\<close>

lemma atan2_range: "- pi < atan2 b a \<and> atan2 b a \<le> pi"
proof -
  have l: "- (pi / 2) < arctan (b / a)" and u: "arctan (b / a) < pi / 2"
    by (rule arctan_lbound, rule arctan_ubound)
  have neg: "arctan (b / a) \<le> 0" if "a < 0" "0 \<le> b"
  proof -
    have "b / a \<le> 0" using that by (simp add: divide_nonneg_neg)
    then show ?thesis by simp
  qed
  have pos: "0 < arctan (b / a)" if "a < 0" "b < 0"
  proof -
    have "0 < b / a" using that by (simp add: divide_neg_neg)
    then show ?thesis by simp
  qed
  have p: "0 < pi" by simp
  show ?thesis
    unfolding atan2_def using l u neg pos p
    by (auto simp: not_less)
qed

lemma degrees_range:
  "- pi < p \<Longrightarrow> p \<le> pi \<Longrightarrow> - pi < q \<Longrightarrow> q \<le> pi \<Longrightarrow>
   - 360 < degrees (p - q) \<and> degrees (p - q) < 360"
proof -
  assume a: "- pi < p" "p \<le> pi" "- pi < q" "q \<le> pi"
  have "0 < pi" by simp
  have "p - q < 2 * pi" and "- (2 * pi) < p - q"
    using a by auto
  then have "(p - q) * 180 < 360 * pi" and "- (360 * pi) < (p - q) * 180"
    by auto
  then show ?thesis
    by (simp add: degrees_def pos_divide_less_eq pos_less_divide_eq)
qed

lemma calculate_angle_range:
  "0 \<le> calculate_angle a b c \<and> calculate_angle a b c < 360"
proof -
  let ?p = "atan2 (snd c - snd b) (fst c - fst b)"
  let ?q = "atan2 (snd a - snd b) (fst a - fst b)"
  have "- 360 < degrees (?p - ?q) \<and> degrees (?p - ?q) < 360"
    using atan2_range [of "snd c - snd b" "fst c - fst b"]
      atan2_range [of "snd a - snd b" "fst a - fst b"]
    by (intro degrees_range) simp_all
  then show ?thesis
    by (auto simp: calculate_angle_def Let_def)
qed

lemma get_angle_range: "0 \<le> get_angle i j k lms v \<and> get_angle i j k lms v < 360"
  using calculate_angle_range by (simp add: get_angle_def Let_def)

lemma posture_angles_range:
  assumes "posture_angles lms = Inr (sd, sit, std)"
  shows "0 \<le> sit \<and> sit < 360 \<and> 0 \<le> std \<and> std \<le> 180"
proof -
  obtain g where g: "std = (if g > 180 then 360 - g else g)" "0 \<le> g" "g < 360"
    and s: "0 \<le> sit \<and> sit < 360"
    using assms get_angle_range
    by (auto simp: posture_angles_def Let_def split: sum.splits)
  then show ?thesis by auto
qed

section \<open>The side selector\<close>

text \<open>
  Claim C9 words the first rule as "combined visibility exceeds \<open>2v\<close>". The source
  compares with \<^verbatim>\<open>>=\<close>: at a combined visibility of exactly \<open>2v\<close> on the left (0.5 + 0.5
  with \<open>v = 0.5\<close>), 0.8 on the right and the right shoulder nearer, the source answers
  left on visibility, where the wording passes to the depth rule and answers right.
\<close>

theorem choose_side_at_threshold:
  "choose_side boundary_pose VIS_THRESH = Inr Left
   \<and> \<not> spec_side_ok boundary_pose VIS_THRESH Left
   \<and> spec_side_ok boundary_pose VIS_THRESH Right"
  by (simp add: boundary_pose_def hidden_def choose_side_def spec_side_ok_def VIS_THRESH_def
      index_defs Let_def)

text \<open>
  Claim C9, amended. For a snapshot that holds the shoulder and hip landmarks (and with
  them the nose) the selector returns a side, by this precedence: the side whose
  combined shoulder and hip visibility is at least \<open>2v\<close> and strictly above the other
  side's; otherwise the side whose shoulder has the strictly smaller \<open>z\<close>; otherwise left
  when the left shoulder is strictly closer to the nose in the plane, and right if not.
\<close>

theorem choose_side_precedence:
  fixes lms :: "landmark list" and v :: real
  defines "vl \<equiv> visibility (lms ! LEFT_SHOULDER) + visibility (lms ! LEFT_HIP)"
    and "vr \<equiv> visibility (lms ! RIGHT_SHOULDER) + visibility (lms ! RIGHT_HIP)"
    and "zl \<equiv> lm_z (lms ! LEFT_SHOULDER)"
    and "zr \<equiv> lm_z (lms ! RIGHT_SHOULDER)"
    and "dl \<equiv> (lm_x (lms ! NOSE) - lm_x (lms ! LEFT_SHOULDER))\<^sup>2
              + (lm_y (lms ! NOSE) - lm_y (lms ! LEFT_SHOULDER))\<^sup>2"
    and "dr \<equiv> (lm_x (lms ! NOSE) - lm_x (lms ! RIGHT_SHOULDER))\<^sup>2
              + (lm_y (lms ! NOSE) - lm_y (lms ! RIGHT_SHOULDER))\<^sup>2"
  assumes "RIGHT_HIP < length lms"
  shows "choose_side lms v =
           Inr (if vl \<ge> 2 * v \<and> vl > vr then Left
                else if vr \<ge> 2 * v \<and> vr > vl then Right
                else if zl < zr then Left
                else if zr < zl then Right
                else if dl < dr then Left
                else Right)"
proof -
  have len: "LEFT_SHOULDER < length lms" "RIGHT_SHOULDER < length lms"
    "LEFT_HIP < length lms" "NOSE < length lms"
    using assms(7) by (auto simp: index_defs)
  show ?thesis
    unfolding vl_def vr_def zl_def zr_def dl_def dr_def
    using len assms(7)
    by (simp add: choose_side_def Let_def mult.commute)
qed

theorem choose_side_precedence_witness:
  "RIGHT_HIP < length boundary_pose \<and> choose_side boundary_pose VIS_THRESH = Inr Left"
proof -
  have h: "RIGHT_HIP < length boundary_pose"
    by (simp add: boundary_pose_length index_defs)
  show ?thesis
    using choose_side_precedence [OF h, of VIS_THRESH] h
    by (simp add: boundary_pose_def hidden_def VIS_THRESH_def index_defs)
qed

section \<open>The debounced posture check\<close>

text \<open>
  Claim C1. On a frame with landmarks that is not paused by a recent stand-up, a sit
  angle that is known and below 130 degrees increments the consecutive counter; exactly
  when the incremented counter is at least 3 and at least 5 seconds have passed since
  the last detection, the count goes up by one, the detection time becomes \<open>now\<close>, the
  consecutive counter goes back to 0 and the short siren is played once; otherwise the
  count and the detection time stay and no siren is played. The count is compared with
  the count that reaches the check (\<open>before_check_fields\<close>).
\<close>

theorem debounce_counts:
  assumes "posture_angles lms = Inr (sd, sit, std)"
    and "process_landmarks now lms s = Inr (s', evs)"
    and "\<not> check_paused now (before_check now sit std s)"
    and "sit \<noteq> 0" and "sit < POSTURE_THRESHOLD"
  shows "if consecutive_bad_posture s + 1 \<ge> 3
            \<and> now - last_detection_time s \<ge> DETECTION_COOLDOWN
         then bad_posture_count s' = bad_posture_count (before_check now sit std s) + 1
              \<and> last_detection_time s' = now
              \<and> consecutive_bad_posture s' = 0
              \<and> count_list evs (Playsound Siren_short_wav) = 1
         else bad_posture_count s' = bad_posture_count (before_check now sit std s)
              \<and> last_detection_time s' = last_detection_time s
              \<and> consecutive_bad_posture s' = consecutive_bad_posture s + 1
              \<and> Playsound Siren_short_wav \<notin> set evs"
proof -
  note r = process_landmarks_result [OF assms(1,2)]
  show ?thesis
    using assms(3-5)
    by (simp add: r update_state_fields update_state_cues posture_check_def Let_def)
qed

theorem debounce_counts_witness:
  "posture_angles slouch_pose = Inr (Right, 90, 90)
   \<and> \<not> check_paused 10 (before_check 10 90 90 (init\<lparr>consecutive_bad_posture := 2\<rparr>))
   \<and> bad_posture_count (fst (update_state 10 Right 90 90 (init\<lparr>consecutive_bad_posture := 2\<rparr>)))
       = 1
   \<and> last_detection_time (fst (update_state 10 Right 90 90 (init\<lparr>consecutive_bad_posture := 2\<rparr>)))
       = 10
   \<and> consecutive_bad_posture
        (fst (update_state 10 Right 90 90 (init\<lparr>consecutive_bad_posture := 2\<rparr>))) = 0
   \<and> count_list (snd (update_state 10 Right 90 90 (init\<lparr>consecutive_bad_posture := 2\<rparr>)))
        (Playsound Siren_short_wav) = 1"
proof -
  let ?s = "init\<lparr>consecutive_bad_posture := 2\<rparr>"
  have a: "posture_angles slouch_pose = Inr (Right, 90, 90)"
    by (rule slouch_pose_angles)
  have b: "process_landmarks 10 slouch_pose ?s
           = Inr (fst (update_state 10 Right 90 90 ?s), snd (update_state 10 Right 90 90 ?s))"
    by (simp add: process_landmarks_update [OF a])
  have c: "\<not> check_paused 10 (before_check 10 90 90 ?s)"
    by (simp add: check_paused_def init_def is_stand_def threshold_defs)
  have d: "(90::real) \<noteq> 0" "(90::real) < POSTURE_THRESHOLD"
    by (simp_all add: threshold_defs)
  show ?thesis
    using debounce_counts [OF a b c d] a c
    by (simp add: init_def is_stand_def threshold_defs)
qed

text \<open>
  Claim C4 says the consecutive counter is reset on every standing frame, because a bad
  posture requires not standing. The test of line 191 reads the sit angle only, so a
  standing frame outside the pause with a known sit angle below 130 is counted: here the
  person has been standing since \<open>t = 100\<close>, the frame at \<open>t = 200\<close> has a stand angle of
  180 and a sit angle of 90, and the counter goes from 0 to 1.
\<close>

theorem standing_frame_counted:
  "posture_angles standing_slouch_pose = Inr (Right, 90, 180)
   \<and> is_stand 180
   \<and> \<not> check_paused 200
         (before_check 200 90 180 (init\<lparr>prev_is_standing := True, stand_up_time := Some 100\<rparr>))
   \<and> process_landmarks 200 standing_slouch_pose
         (init\<lparr>prev_is_standing := True, stand_up_time := Some 100\<rparr>)
       = Inr (init\<lparr>prev_is_standing := True, stand_up_time := Some 100,
                    consecutive_bad_posture := 1\<rparr>,
              [Draw_text (Bad_Posture 0), Draw_text (Deg1 Right (Some 90)),
               Draw_text (Deg2 Right (Some 180)), Draw_landmarks])"
  by (simp add: process_landmarks_update [OF standing_slouch_pose_angles]
      standing_slouch_pose_angles before_check_def frame_defs threshold_defs init_def Let_def)

text \<open>
  Claim C4, amended. On a frame with landmarks that is not paused, the consecutive
  counter becomes 0 when the sit angle is unknown (0) or at least 130, and when a
  debounced detection fires; otherwise it goes up by one. The stand angle plays no part:
  a standing frame is reset only because, and when, its sit angle is not a bad one.
\<close>

theorem consecutive_counter_reset:
  assumes "posture_angles lms = Inr (sd, sit, std)"
    and "process_landmarks now lms s = Inr (s', evs)"
    and "\<not> check_paused now (before_check now sit std s)"
  shows "consecutive_bad_posture s' =
           (if sit < POSTURE_THRESHOLD \<and> sit \<noteq> 0 then
              (if consecutive_bad_posture s + 1 \<ge> 3
                  \<and> now - last_detection_time s \<ge> DETECTION_COOLDOWN
               then 0 else consecutive_bad_posture s + 1)
            else 0)"
proof -
  note r = process_landmarks_result [OF assms(1,2)]
  show ?thesis
    using assms(3)
    by (simp add: r update_state_fields posture_check_def Let_def)
qed

theorem consecutive_counter_reset_witness:
  "posture_angles standing_pose = Inr (Right, 180, 180)
   \<and> \<not> check_paused 200
         (before_check 200 180 180
            (init\<lparr>prev_is_standing := True, stand_up_time := Some 100,
                  consecutive_bad_posture := 2\<rparr>))
   \<and> consecutive_bad_posture
        (fst (update_state 200 Right 180 180
               (init\<lparr>prev_is_standing := True, stand_up_time := Some 100,
                     consecutive_bad_posture := 2\<rparr>))) = 0"
proof -
  let ?s = "init\<lparr>prev_is_standing := True, stand_up_time := Some 100,
                  consecutive_bad_posture := 2\<rparr>"
  have a: "posture_angles standing_pose = Inr (Right, 180, 180)"
    by (rule standing_pose_angles)
  have b: "process_landmarks 200 standing_pose ?s
           = Inr (fst (update_state 200 Right 180 180 ?s),
                  snd (update_state 200 Right 180 180 ?s))"
    by (simp add: process_landmarks_update [OF a])
  have c: "\<not> check_paused 200 (before_check 200 180 180 ?s)"
    by (simp add: check_paused_def init_def is_stand_def threshold_defs)
  show ?thesis
    using consecutive_counter_reset [OF a b c] a c
    by (simp add: threshold_defs)
qed

section \<open>The stand-up edge and the pause after it\<close>

text \<open>
  A stand-up edge stores the clock reading and the pause test then reads it back: the
  edge frame itself is paused, unless the clock reading is \<open>0\<close>. The posture check
  never lowers the count, and raises it by one exactly when it plays the siren.
\<close>

lemma edge_frame_paused:
  "is_stand std \<Longrightarrow> \<not> prev_is_standing s \<Longrightarrow> now \<noteq> 0 \<Longrightarrow>
   check_paused now (before_check now sit std s)"
  by (simp add: check_paused_def)

lemma posture_check_count_mono:
  "bad_posture_count s \<le> bad_posture_count (fst (posture_check now sit std s))"
  by (simp add: posture_check_def Let_def)

lemma posture_check_count_siren:
  "bad_posture_count (fst (posture_check now sit std s)) =
     bad_posture_count s
     + (if Playsound Siren_short_wav \<in> set (snd (posture_check now sit std s)) then 1 else 0)"
  by (simp add: posture_check_def Let_def)

text \<open>
  Claim C6. On a frame that is standing while the previous one was not, the stand-up
  time becomes \<open>now\<close>, the reset cue is played exactly once and the count is reset: the
  frame ends with a count of 0, or of 1 when the posture check of the same frame fires
  on top of the reset (the check runs on an edge frame only at the clock reading \<open>0\<close>,
  see \<open>edge_frame_paused\<close>). On a frame whose predecessor was standing, the stand-up
  time stays, no reset cue is played and the count is not lowered. The frame records
  whether it was standing, so the frame after a standing frame plays no reset cue.
\<close>

theorem stand_up_edge_once:
  assumes "posture_angles lms = Inr (sd, sit, std)"
    and "process_landmarks now lms s = Inr (s', evs)"
  shows "(is_stand std \<and> \<not> prev_is_standing s \<longrightarrow>
            stand_up_time s' = Some now
            \<and> count_list evs (Playsound Reset_wav) = 1
            \<and> bad_posture_count s' = (if Playsound Siren_short_wav \<in> set evs then 1 else 0)
            \<and> (now \<noteq> 0 \<longrightarrow> bad_posture_count s' = 0))
         \<and> (prev_is_standing s \<longrightarrow>
              stand_up_time s' = stand_up_time s
              \<and> Playsound Reset_wav \<notin> set evs
              \<and> bad_posture_count s \<le> bad_posture_count s')
         \<and> prev_is_standing s' = is_stand std
         \<and> (is_stand std \<longrightarrow>
              (\<forall>now2 lms2 s2 evs2.
                 process_landmarks now2 lms2 s' = Inr (s2, evs2) \<longrightarrow>
                 Playsound Reset_wav \<notin> set evs2))"
proof -
  note r = process_landmarks_result [OF assms]
  have edge: "stand_up_time s' = Some now \<and> count_list evs (Playsound Reset_wav) = 1
      \<and> bad_posture_count s' = (if Playsound Siren_short_wav \<in> set evs then 1 else 0)
      \<and> (now \<noteq> 0 \<longrightarrow> bad_posture_count s' = 0)"
    if e: "is_stand std" "\<not> prev_is_standing s"
  proof -
    have "now \<noteq> 0 \<Longrightarrow> bad_posture_count s' = 0"
      using edge_frame_paused [OF e, of now sit] e
      by (simp add: r update_state_fields posture_check_def)
    moreover have "bad_posture_count s'
        = (if Playsound Siren_short_wav \<in> set evs then 1 else 0)"
      using e posture_check_count_siren [of now sit std "before_check now sit std s"]
      by (simp add: r update_state_fields update_state_cues)
    ultimately show ?thesis
      using e by (simp add: r update_state_fields update_state_cues)
  qed
  have steady: "stand_up_time s' = stand_up_time s \<and> Playsound Reset_wav \<notin> set evs
      \<and> bad_posture_count s \<le> bad_posture_count s'"
    if p: "prev_is_standing s"
    using p posture_check_count_mono [of "before_check now sit std s" now sit std]
    by (simp add: r update_state_fields count_list_0_iff [symmetric] update_state_cues)
  have prev: "prev_is_standing s' = is_stand std"
    by (simp add: r update_state_fields)
  have "Playsound Reset_wav \<notin> set evs2"
    if "is_stand std" and n: "process_landmarks now2 lms2 s' = Inr (s2, evs2)"
    for now2 lms2 s2 evs2
  proof -
    obtain sd2 sit2 std2 where a2: "posture_angles lms2 = Inr (sd2, sit2, std2)"
      using n by (auto simp: process_landmarks_def split: sum.splits)
    have "count_list evs2 (Playsound Reset_wav) = 0"
      using that(1) prev
      by (simp add: process_landmarks_result [OF a2 n] update_state_cues)
    then show ?thesis by (simp add: count_list_0_iff)
  qed
  with edge steady prev show ?thesis by blast
qed

theorem stand_up_edge_once_witness:
  "posture_angles standing_pose = Inr (Right, 180, 180)
   \<and> is_stand 180 \<and> \<not> prev_is_standing (init\<lparr>bad_posture_count := 2\<rparr>)
   \<and> stand_up_time (fst (update_state 50 Right 180 180 (init\<lparr>bad_posture_count := 2\<rparr>)))
       = Some 50
   \<and> count_list (snd (update_state 50 Right 180 180 (init\<lparr>bad_posture_count := 2\<rparr>)))
        (Playsound Reset_wav) = 1
   \<and> bad_posture_count (fst (update_state 50 Right 180 180 (init\<lparr>bad_posture_count := 2\<rparr>)))
       = 0
   \<and> prev_is_standing (fst (update_state 50 Right 180 180 (init\<lparr>bad_posture_count := 2\<rparr>)))"
proof -
  let ?s = "init\<lparr>bad_posture_count := 2\<rparr>"
  have a: "posture_angles standing_pose = Inr (Right, 180, 180)"
    by (rule standing_pose_angles)
  have b: "process_landmarks 50 standing_pose ?s
           = Inr (fst (update_state 50 Right 180 180 ?s),
                  snd (update_state 50 Right 180 180 ?s))"
    by (simp add: process_landmarks_update [OF a])
  have c: "is_stand 180" "\<not> prev_is_standing ?s"
    by (simp_all add: is_stand_def init_def threshold_defs)
  show ?thesis
    using stand_up_edge_once [OF a b] a c by simp
qed

text \<open>
  The pause itself: when the test of line 188 succeeds, the frame leaves the consecutive
  counter and the detection time alone, the count is the one that reached the check, no
  siren is played and the "Posture Check Paused" label is drawn. The test succeeds when
  the stand-up time is a non-zero clock reading less than 10 seconds old.
\<close>

lemma paused_frame_skips_check:
  assumes "posture_angles lms = Inr (sd, sit, std)"
    and "process_landmarks now lms s = Inr (s', evs)"
    and "check_paused now (before_check now sit std s)"
  shows "consecutive_bad_posture s' = consecutive_bad_posture s
         \<and> last_detection_time s' = last_detection_time s
         \<and> bad_posture_count s' = bad_posture_count (before_check now sit std s)
         \<and> Playsound Siren_short_wav \<notin> set evs
         \<and> Draw_text Posture_Check_Paused \<in> set evs"
proof -
  note r = process_landmarks_result [OF assms(1,2)]
  show ?thesis
    using assms(3)
    by (simp add: r update_state_fields update_state_cues posture_check_def)
qed

lemma check_paused_iff:
  "check_paused now s \<longleftrightarrow> (\<exists>t. stand_up_time s = Some t \<and> t \<noteq> 0 \<and> now - t < 10)"
  by (simp add: check_paused_def split: option.splits)

text \<open>
  The stand-up time is \<^verbatim>\<open>None\<close> or a clock reading stored by a stand-up edge. Along a run
  from a state whose stand-up time is not the reading 0, with clock readings other than
  0, it never becomes the reading 0, so the truth-value test of line 188 agrees with a
  test for \<^verbatim>\<open>None\<close>.
\<close>

lemma process_frame_stand_up_time_nonzero:
  assumes "process_frame now frame s = Inr (s', evs)"
    and "now \<noteq> 0" and "stand_up_time s \<noteq> Some 0"
  shows "stand_up_time s' \<noteq> Some 0"
proof (cases frame)
  case None
  then have "s' = fst (handle_no_detection s)"
    using assms(1) by (simp add: process_frame_def)
  then show ?thesis
    using assms(3) by simp
next
  case (Some lms)
  then have p: "process_landmarks now lms s = Inr (s', evs)"
    using assms(1) by (simp add: process_frame_def)
  then obtain sd sit std where a: "posture_angles lms = Inr (sd, sit, std)"
    by (auto simp: process_landmarks_def split: sum.splits)
  show ?thesis
    using assms(2,3)
    by (simp add: process_landmarks_result [OF a p] update_state_fields)
qed

lemma run_stand_up_time_nonzero:
  "run fs s = Inr (s', evs) \<Longrightarrow> \<forall>f \<in> set fs. fst f \<noteq> 0 \<Longrightarrow>
   stand_up_time s \<noteq> Some 0 \<Longrightarrow> stand_up_time s' \<noteq> Some 0"
proof (induction fs arbitrary: s s' evs)
  case Nil
  then show ?case by simp
next
  case (Cons f fs)
  obtain now frame where f: "f = (now, frame)" by (cases f)
  from Cons.prems(1) obtain s1 e1 s2 e2 where
    step: "process_frame now frame s = Inr (s1, e1)" and
    rest: "run fs s1 = Inr (s2, e2)" and s': "s' = s2"
    by (auto simp: f split: sum.splits prod.splits)
  have "stand_up_time s1 \<noteq> Some 0"
    using process_frame_stand_up_time_nonzero [OF step] Cons.prems(2,3) by (simp add: f)
  then show ?case
    using Cons.IH [OF rest] Cons.prems(2) s' by simp
qed

text \<open>
  Claim C7. On a frame with landmarks whose stand-up time, as it reaches line 188, is a
  clock reading \<open>t\<close> (a reading is never 0): while \<open>now - t < 10\<close> the posture check is
  skipped, so the consecutive counter and the last detection time are those of the
  previous frame, the count is the one that reached the check (the previous frame's
  count when the frame is not itself a stand-up edge), no short siren is played and
  the "Posture Check Paused" label is drawn; from \<open>now - t = 10\<close> on, no such label is
  drawn and a frame with a known sit angle below 130 is counted by the debounce as on
  any other frame.
\<close>

theorem grace_window_skips_check:
  assumes "posture_angles lms = Inr (sd, sit, std)"
    and "process_landmarks now lms s = Inr (s', evs)"
    and "stand_up_time (before_check now sit std s) = Some t"
    and "t \<noteq> 0"
  shows "(now - t < 10 \<longrightarrow>
            consecutive_bad_posture s' = consecutive_bad_posture s
            \<and> last_detection_time s' = last_detection_time s
            \<and> bad_posture_count s' = bad_posture_count (before_check now sit std s)
            \<and> (\<not> (is_stand std \<and> \<not> prev_is_standing s) \<longrightarrow>
                 bad_posture_count s' = bad_posture_count s)
            \<and> Playsound Siren_short_wav \<notin> set evs
            \<and> Draw_text Posture_Check_Paused \<in> set evs)
         \<and> (now - t \<ge> 10 \<longrightarrow>
              Draw_text Posture_Check_Paused \<notin> set evs
              \<and> (sit \<noteq> 0 \<and> sit < POSTURE_THRESHOLD \<longrightarrow>
                   (if consecutive_bad_posture s + 1 \<ge> 3
                       \<and> now - last_detection_time s \<ge> DETECTION_COOLDOWN
                    then bad_posture_count s' = bad_posture_count s + 1
                         \<and> last_detection_time s' = now
                         \<and> consecutive_bad_posture s' = 0
                         \<and> count_list evs (Playsound Siren_short_wav) = 1
                    else bad_posture_count s' = bad_posture_count s
                         \<and> last_detection_time s' = last_detection_time s
                         \<and> consecutive_bad_posture s' = consecutive_bad_posture s + 1
                         \<and> Playsound Siren_short_wav \<notin> set evs)))"
proof -
  note r = process_landmarks_result [OF assms(1,2)]
  have paused: "check_paused now (before_check now sit std s) \<longleftrightarrow> now - t < 10"
    using assms(3,4) by (simp add: check_paused_iff)
  have inside: "consecutive_bad_posture s' = consecutive_bad_posture s
      \<and> last_detection_time s' = last_detection_time s
      \<and> bad_posture_count s' = bad_posture_count (before_check now sit std s)
      \<and> (\<not> (is_stand std \<and> \<not> prev_is_standing s) \<longrightarrow>
           bad_posture_count s' = bad_posture_count s)
      \<and> Playsound Siren_short_wav \<notin> set evs
      \<and> Draw_text Posture_Check_Paused \<in> set evs"
    if "now - t < 10"
    using paused_frame_skips_check [OF assms(1,2)] paused that by auto
  have no_edge: "\<not> (is_stand std \<and> \<not> prev_is_standing s)" if "now - t \<ge> 10"
    using that assms(3) by (auto split: if_splits)
  have outside: "Draw_text Posture_Check_Paused \<notin> set evs
      \<and> (sit \<noteq> 0 \<and> sit < POSTURE_THRESHOLD \<longrightarrow>
           (if consecutive_bad_posture s + 1 \<ge> 3
               \<and> now - last_detection_time s \<ge> DETECTION_COOLDOWN
            then bad_posture_count s' = bad_posture_count s + 1
                 \<and> last_detection_time s' = now
                 \<and> consecutive_bad_posture s' = 0
                 \<and> count_list evs (Playsound Siren_short_wav) = 1
            else bad_posture_count s' = bad_posture_count s
                 \<and> last_detection_time s' = last_detection_time s
                 \<and> consecutive_bad_posture s' = consecutive_bad_posture s + 1
                 \<and> Playsound Siren_short_wav \<notin> set evs))"
    if "now - t \<ge> 10"
  proof -
    have np: "\<not> check_paused now (before_check now sit std s)"
      using paused that by simp
    show ?thesis
      using np no_edge [OF that]
      by (auto simp: r update_state_fields update_state_cues posture_check_def Let_def)
  qed
  from inside outside show ?thesis by blast
qed

theorem grace_window_skips_check_witness:
  "posture_angles slouch_pose = Inr (Right, 90, 90)
   \<and> stand_up_time
        (before_check 104 90 90
           (init\<lparr>stand_up_time := Some 100, consecutive_bad_posture := 2,
                 bad_posture_count := 1\<rparr>)) = Some 100
   \<and> consecutive_bad_posture
        (fst (update_state 104 Right 90 90
           (init\<lparr>stand_up_time := Some 100, consecutive_bad_posture := 2,
                 bad_posture_count := 1\<rparr>))) = 2
   \<and> bad_posture_count
        (fst (update_state 104 Right 90 90
           (init\<lparr>stand_up_time := Some 100, consecutive_bad_posture := 2,
                 bad_posture_count := 1\<rparr>))) = 1
   \<and> last_detection_time
        (fst (update_state 104 Right 90 90
           (init\<lparr>stand_up_time := Some 100, consecutive_bad_posture := 2,
                 bad_posture_count := 1\<rparr>))) = 0
   \<and> Draw_text Posture_Check_Paused
        \<in> set (snd (update_state 104 Right 90 90
           (init\<lparr>stand_up_time := Some 100, consecutive_bad_posture := 2,
                 bad_posture_count := 1\<rparr>)))
   \<and> Playsound Siren_short_wav
        \<notin> set (snd (update_state 104 Right 90 90
           (init\<lparr>stand_up_time := Some 100, consecutive_bad_posture := 2,
                 bad_posture_count := 1\<rparr>)))
   \<and> bad_posture_count
        (fst (update_state 110 Right 90 90
           (init\<lparr>stand_up_time := Some 100, consecutive_bad_posture := 2,
                 bad_posture_count := 1\<rparr>))) = 2
   \<and> consecutive_bad_posture
        (fst (update_state 110 Right 90 90
           (init\<lparr>stand_up_time := Some 100, consecutive_bad_posture := 2,
                 bad_posture_count := 1\<rparr>))) = 0
   \<and> last_detection_time
        (fst (update_state 110 Right 90 90
           (init\<lparr>stand_up_time := Some 100, consecutive_bad_posture := 2,
                 bad_posture_count := 1\<rparr>))) = 110"
proof -
  let ?s = "init\<lparr>stand_up_time := Some 100, consecutive_bad_posture := 2,
                  bad_posture_count := 1\<rparr>"
  have a: "posture_angles slouch_pose = Inr (Right, 90, 90)"
    by (rule slouch_pose_angles)
  have b: "process_landmarks n slouch_pose ?s
           = Inr (fst (update_state n Right 90 90 ?s), snd (update_state n Right 90 90 ?s))"
    for n
    by (simp add: process_landmarks_update [OF a])
  have c: "stand_up_time (before_check n 90 90 ?s) = Some 100" for n
    by (simp add: init_def is_stand_def threshold_defs)
  have d: "(100::real) \<noteq> 0"
    by simp
  show ?thesis
    using grace_window_skips_check [OF a b c d, of 104]
      grace_window_skips_check [OF a b c d, of 110] a c [of 104]
    by (simp add: init_def is_stand_def threshold_defs)
qed

section \<open>The sitting timer\<close>

text \<open>
  Claim C5 says the sitting start time is non-null exactly while the frames are
  classified as sitting, and that a frame on which \<open>is_sit\<close> is false leaves it null. A
  frame with landmarks whose angles are both unknown is neither sitting nor standing,
  and the source then leaves the entry alone: a start time of 100 survives such a frame.
\<close>

theorem unknown_frame_keeps_sitting_time:
  "posture_angles hidden_pose = Inr (Right, 0, 0)
   \<and> \<not> is_sit 0 0
   \<and> process_landmarks 200 hidden_pose (init\<lparr>sitting_start_time := Some 100\<rparr>)
       = Inr (init\<lparr>sitting_start_time := Some 100\<rparr>,
              [Draw_text (Good_Posture 0), Draw_text (Deg1 Right None),
               Draw_text (Deg2 Right None), Draw_landmarks])"
  by (simp add: process_landmarks_update [OF hidden_pose_angles] hidden_pose_angles
      before_check_def frame_defs threshold_defs init_def Let_def)

text \<open>
  Claim C5, amended. A standing frame and a frame without landmarks clear the sitting
  start time; a frame classified as sitting leaves it non-null (\<open>now\<close> if it was null, its
  old value otherwise); a frame with landmarks that is neither sitting nor standing
  leaves it as it was.
\<close>

theorem sitting_start_time_tracking:
  assumes "posture_angles lms = Inr (sd, sit, std)"
    and "process_landmarks now lms s = Inr (s', evs)"
  shows "(is_stand std \<longrightarrow> sitting_start_time s' = None)
         \<and> (is_sit sit std \<longrightarrow>
              sitting_start_time s'
                = Some (case sitting_start_time s of None \<Rightarrow> now | Some t \<Rightarrow> t))
         \<and> (\<not> is_stand std \<and> \<not> is_sit sit std \<longrightarrow>
              sitting_start_time s' = sitting_start_time s)
         \<and> sitting_start_time (fst (handle_no_detection s0)) = None"
proof -
  note r = process_landmarks_result [OF assms]
  show ?thesis
    by (auto simp: r update_state_fields is_sit_def split: option.splits)
qed

theorem sitting_start_time_tracking_witness:
  "posture_angles upright_pose = Inr (Right, 180, 90)
   \<and> is_sit 180 90
   \<and> sitting_start_time (fst (update_state 7 Right 180 90 init)) = Some 7
   \<and> sitting_start_time (fst (handle_no_detection init)) = None"
proof -
  have a: "posture_angles upright_pose = Inr (Right, 180, 90)"
    by (rule upright_pose_angles)
  have b: "process_landmarks 7 upright_pose init
           = Inr (fst (update_state 7 Right 180 90 init), snd (update_state 7 Right 180 90 init))"
    by (simp add: process_landmarks_update [OF a])
  have c: "is_sit 180 90"
    by (simp add: is_sit_def is_stand_def threshold_defs)
  show ?thesis
    using sitting_start_time_tracking [OF a b, of init] a c
    by (simp add: init_def)
qed

section \<open>The alarm loop\<close>

text \<open>
  Claim C2 says the alarm is active after every frame, with or without landmarks,
  exactly when the count is at least 3 or the person has been sitting for an hour. A
  frame without landmarks stops the loop and keeps the count: with a count of 3 and the
  loop running, the loop is off after the frame and the count is still 3.
\<close>

theorem no_detection_stops_alarm_at_count_three:
  "process_frame 0 None (init\<lparr>bad_posture_count := 3, ping_active := True, ping_thread := True\<rparr>)
     = Inr (init\<lparr>bad_posture_count := 3\<rparr>, [Draw_text No_detection, Thread_join])
   \<and> bad_posture_count (init\<lparr>bad_posture_count := 3\<rparr>) \<ge> MAX_COUNTER
   \<and> \<not> ping_active (init\<lparr>bad_posture_count := 3\<rparr>)"
  by (simp add: process_frame_def handle_no_detection_def manage_sound_loop_def init_def
      threshold_defs)

text \<open>
  Claim C2, amended. After a frame with landmarks whose sitting start time is not the
  clock reading 0, the alarm is active exactly when the count is at least
  \<open>MAX_COUNTER\<close> or the frame is classified as sitting and the sitting start time is at
  least \<open>SIT_LIMIT_SEC\<close> old. After a frame without landmarks the alarm is off.
\<close>

theorem alarm_follows_condition:
  assumes "posture_angles lms = Inr (sd, sit, std)"
    and "process_frame now (Some lms) s = Inr (s', evs)"
    and "sitting_start_time s' \<noteq> Some 0"
  shows "(ping_active s' \<longleftrightarrow>
            bad_posture_count s' \<ge> MAX_COUNTER
            \<or> (is_sit sit std
                \<and> (\<exists>t. sitting_start_time s' = Some t \<and> now - t \<ge> SIT_LIMIT_SEC)))
         \<and> process_frame now None s0 = Inr (handle_no_detection s0)
         \<and> \<not> ping_active (fst (handle_no_detection s0))"
proof -
  have p: "process_landmarks now lms s = Inr (s', evs)"
    using assms(2) by (simp add: process_frame_def)
  note r = process_landmarks_result [OF assms(1) p]
  have "ping_active s' \<longleftrightarrow>
      bad_posture_count s' \<ge> MAX_COUNTER
      \<or> (is_sit sit std \<and> (\<exists>t. sitting_start_time s' = Some t \<and> now - t \<ge> SIT_LIMIT_SEC))"
    using assms(3)
    by (auto simp: r update_state_fields is_stretch_time_def is_bad_posture_exceeded_def
        split: option.splits if_splits)
  then show ?thesis
    by (simp add: process_frame_def)
qed

theorem alarm_follows_condition_witness:
  "posture_angles upright_pose = Inr (Right, 180, 90)
   \<and> sitting_start_time (fst (update_state 4000 Right 180 90 (init\<lparr>sitting_start_time := Some 100\<rparr>)))
       \<noteq> Some 0
   \<and> ping_active (fst (update_state 4000 Right 180 90 (init\<lparr>sitting_start_time := Some 100\<rparr>)))
   \<and> is_sit 180 90
   \<and> \<not> ping_active (fst (handle_no_detection init))"
proof -
  let ?s = "init\<lparr>sitting_start_time := Some 100\<rparr>"
  have a: "posture_angles upright_pose = Inr (Right, 180, 90)"
    by (rule upright_pose_angles)
  have b: "process_frame 4000 (Some upright_pose) ?s
           = Inr (fst (update_state 4000 Right 180 90 ?s),
                  snd (update_state 4000 Right 180 90 ?s))"
    by (simp add: process_frame_def process_landmarks_update [OF a])
  have st: "sitting_start_time (fst (update_state 4000 Right 180 90 ?s)) = Some 100"
    by (simp add: update_state_fields is_stand_def is_sit_def threshold_defs init_def)
  then have c: "sitting_start_time (fst (update_state 4000 Right 180 90 ?s)) \<noteq> Some 0"
    by simp
  have d: "is_sit 180 90"
    by (simp add: is_sit_def is_stand_def threshold_defs)
  show ?thesis
    using alarm_follows_condition [OF a b c, of init] a c d st
    by (simp add: threshold_defs)
qed

section \<open>Frames without landmarks\<close>

text \<open>
  Claim C8. Whatever the state, a frame without a pose snapshot clears the sitting start
  time, the stretch prompt and the consecutive counter, forces \<open>prev_is_standing\<close> to
  false, leaves the alarm loop inactive (it never starts the thread), draws the
  "No detection" label, and keeps \<open>bad_posture_count\<close>.
\<close>

theorem no_detection_hard_reset:
  "sitting_start_time (fst (handle_no_detection s)) = None
   \<and> stretch_prompted (fst (handle_no_detection s)) = False
   \<and> consecutive_bad_posture (fst (handle_no_detection s)) = 0
   \<and> prev_is_standing (fst (handle_no_detection s)) = False
   \<and> ping_active (fst (handle_no_detection s)) = False
   \<and> Thread_start \<notin> set (snd (handle_no_detection s))
   \<and> Draw_text No_detection \<in> set (snd (handle_no_detection s))
   \<and> bad_posture_count (fst (handle_no_detection s)) = bad_posture_count s"
  by (simp add: handle_no_detection_def manage_sound_loop_def Let_def split: prod.splits)

text \<open>
  Claim C10. A frame without landmarks leaves the stand-up time and the last detection
  time as they were, so the pause test of line 188 and the cooldown test of line 193
  give the same answers after it as before it, at every clock reading. For the next
  frame with landmarks, if it is not a standing frame (which would be a new stand-up
  edge and restart the pause), a pause that was running is still running: the frame is
  paused, with the label drawn and the count and detection time untouched.
\<close>

theorem no_detection_keeps_windows:
  assumes "posture_angles lms = Inr (sd, sit, std)"
    and "process_landmarks now lms (fst (handle_no_detection s)) = Inr (s', evs)"
    and "\<not> is_stand std"
  shows "stand_up_time (fst (handle_no_detection s)) = stand_up_time s
         \<and> last_detection_time (fst (handle_no_detection s)) = last_detection_time s
         \<and> check_paused t (fst (handle_no_detection s)) = check_paused t s
         \<and> (t - last_detection_time (fst (handle_no_detection s)) \<ge> DETECTION_COOLDOWN)
             = (t - last_detection_time s \<ge> DETECTION_COOLDOWN)
         \<and> check_paused now (before_check now sit std (fst (handle_no_detection s)))
             = check_paused now s
         \<and> last_detection_time (before_check now sit std (fst (handle_no_detection s)))
             = last_detection_time s
         \<and> (check_paused now s \<longrightarrow>
              Draw_text Posture_Check_Paused \<in> set evs
              \<and> Playsound Siren_short_wav \<notin> set evs
              \<and> bad_posture_count s' = bad_posture_count s
              \<and> last_detection_time s' = last_detection_time s)"
proof -
  have same: "check_paused now (before_check now sit std (fst (handle_no_detection s)))
      = check_paused now s"
    using assms(3) by (simp add: check_paused_def)
  have "Draw_text Posture_Check_Paused \<in> set evs \<and> Playsound Siren_short_wav \<notin> set evs
      \<and> bad_posture_count s' = bad_posture_count s
      \<and> last_detection_time s' = last_detection_time s"
    if "check_paused now s"
    using paused_frame_skips_check [OF assms(1,2)] that same assms(3) by simp
  with same show ?thesis
    by (simp add: check_paused_def)
qed

theorem no_detection_keeps_windows_witness:
  "posture_angles slouch_pose = Inr (Right, 90, 90)
   \<and> \<not> is_stand 90
   \<and> check_paused 104 (init\<lparr>stand_up_time := Some 100, bad_posture_count := 2\<rparr>)
   \<and> stand_up_time (fst (handle_no_detection (init\<lparr>stand_up_time := Some 100, bad_posture_count := 2\<rparr>)))
       = Some 100
   \<and> Draw_text Posture_Check_Paused
       \<in> set (snd (update_state 104 Right 90 90
                 (fst (handle_no_detection (init\<lparr>stand_up_time := Some 100, bad_posture_count := 2\<rparr>)))))
   \<and> bad_posture_count
        (fst (update_state 104 Right 90 90
          (fst (handle_no_detection (init\<lparr>stand_up_time := Some 100, bad_posture_count := 2\<rparr>)))))
       = 2"
proof -
  let ?s = "init\<lparr>stand_up_time := Some 100, bad_posture_count := 2\<rparr>"
  let ?n = "fst (handle_no_detection ?s)"
  have a: "posture_angles slouch_pose = Inr (Right, 90, 90)"
    by (rule slouch_pose_angles)
  have b: "process_landmarks 104 slouch_pose ?n
           = Inr (fst (update_state 104 Right 90 90 ?n), snd (update_state 104 Right 90 90 ?n))"
    by (simp add: process_landmarks_update [OF a])
  have c: "\<not> is_stand 90"
    by (simp add: is_stand_def threshold_defs)
  have d: "check_paused 104 ?s"
    by (simp add: check_paused_def init_def)
  show ?thesis
    using no_detection_keeps_windows [OF a b c, of 104] a c d
    by (simp add: init_def)
qed

end
